theory Spec2Isabelle
  imports Complex_Main "HOL-Library.AList" "HOL-Library.Sublist"
begin

section \<open>JavaScript values and the operators the progress tracker uses\<close>

text \<open>
  The tracker (\<^verbatim>\<open>src/components/WorkflowProgress.jsx\<close>) works on untyped values: the
  result of \<^verbatim>\<open>JSON.parse\<close> on a WebSocket payload and the React state object they are
  merged into. \<open>jsv\<close> is the type of these values. \<open>JUndefined\<close> never comes out of
  \<^verbatim>\<open>JSON.parse\<close>; it is what a read of a missing property yields. An object is the list
  of its own properties; a lookup takes the first entry of a key, and the order of the
  entries carries no meaning. A number is the rational it denotes. A string is the list of
  its code units.
\<close>

datatype jsv =
    JUndefined
  | JNull
  | JBool bool
  | JNum rat
  | JStr string
  | JArr "jsv list"
  | JObj "(string \<times> jsv) list"

datatype error = TypeError

text \<open>Truthiness: what \<^verbatim>\<open>if (v)\<close>, \<^verbatim>\<open>!v\<close> and \<^verbatim>\<open>v || w\<close> test.\<close>

fun truthy :: "jsv \<Rightarrow> bool" where
  "truthy JUndefined = False"
| "truthy JNull = False"
| "truthy (JBool b) = b"
| "truthy (JNum n) = (n \<noteq> 0)"
| "truthy (JStr s) = (s \<noteq> [])"
| "truthy (JArr xs) = True"
| "truthy (JObj kvs) = True"

text \<open>\<^verbatim>\<open>a || b\<close>: the left operand when it is truthy, else the right one.\<close>

definition or_js :: "jsv \<Rightarrow> jsv \<Rightarrow> jsv" where
  "or_js a b = (if truthy a then a else b)"

fun nullish :: "jsv \<Rightarrow> bool" where
  "nullish JUndefined = True"
| "nullish JNull = True"
| "nullish v = False"

text \<open>
  \<open>read_prop v k\<close> is \<^verbatim>\<open>v?.k\<close>, and \<^verbatim>\<open>v.k\<close> for a \<open>v\<close> that is neither null nor undefined.
  The tracker reads only the names \<^verbatim>\<open>type\<close>, \<^verbatim>\<open>data\<close>, \<^verbatim>\<open>message\<close>, \<^verbatim>\<open>content\<close>,
  \<^verbatim>\<open>current_agent\<close>, \<^verbatim>\<open>agent_activity\<close>, \<^verbatim>\<open>agent\<close>, \<^verbatim>\<open>action\<close>, \<^verbatim>\<open>status\<close>, \<^verbatim>\<open>details\<close>,
  \<^verbatim>\<open>current_step\<close> and \<^verbatim>\<open>id\<close> this way; none of them is an index, \<^verbatim>\<open>length\<close> or a
  prototype member, so on a string, an array, a number or a boolean the read is undefined.
\<close>

fun read_prop :: "jsv \<Rightarrow> string \<Rightarrow> jsv" where
  "read_prop (JObj kvs) k = (case map_of kvs k of None \<Rightarrow> JUndefined | Some v \<Rightarrow> v)"
| "read_prop v k = JUndefined"

text \<open>\<^verbatim>\<open>v.k\<close>: reading a property of null or undefined throws.\<close>

definition get_prop :: "jsv \<Rightarrow> string \<Rightarrow> error + jsv" where
  "get_prop v k = (if nullish v then Inl TypeError else Inr (read_prop v k))"

text \<open>
  \<^verbatim>\<open>a === b\<close>. Arrays and objects are compared by identity; every array or object the
  tracker compares comes from a different \<^verbatim>\<open>JSON.parse\<close> result or literal than the value
  it is compared with, so they are never equal.
\<close>

definition strict_eq :: "jsv \<Rightarrow> jsv \<Rightarrow> bool" where
  "strict_eq a b =
     (case a of
        JUndefined \<Rightarrow> b = JUndefined
      | JNull \<Rightarrow> b = JNull
      | JBool x \<Rightarrow> b = JBool x
      | JNum x \<Rightarrow> b = JNum x
      | JStr x \<Rightarrow> b = JStr x
      | JArr xs \<Rightarrow> False
      | JObj kvs \<Rightarrow> False)"

text \<open>Decimal rendering of an array index, as a property key.\<close>

definition digit_char :: "nat \<Rightarrow> char" where
  "digit_char d = char_of (48 + d)"

function string_of_nat :: "nat \<Rightarrow> string" where
  "string_of_nat n =
     (if n < 10 then [digit_char n] else string_of_nat (n div 10) @ [digit_char (n mod 10)])"
  by pat_completeness auto
termination
  by (relation "measure (\<lambda>n. n)") auto

declare string_of_nat.simps [simp del]

text \<open>
  The own enumerable properties an object spread \<^verbatim>\<open>{...v}\<close> copies: the members of an
  object, the indexed elements of an array, the indexed one-unit strings of a string, and
  nothing for the other values.
\<close>

fun own_props :: "jsv \<Rightarrow> (string \<times> jsv) list" where
  "own_props (JObj kvs) = kvs"
| "own_props (JArr xs) = zip (map string_of_nat [0..<length xs]) xs"
| "own_props (JStr s) = zip (map string_of_nat [0..<length s]) (map (\<lambda>c. JStr [c]) s)"
| "own_props v = []"

text \<open>\<^verbatim>\<open>{...v, k: x}\<close>: a fresh object with the properties of \<open>v\<close> and \<open>k\<close> set to \<open>x\<close>.\<close>

definition spread_with :: "jsv \<Rightarrow> string \<Rightarrow> jsv \<Rightarrow> jsv" where
  "spread_with v k x = JObj (AList.update k x (own_props v))"

text \<open>
  The elements an array spread \<^verbatim>\<open>[...v]\<close> iterates: those of an array, the units of a
  string; any other value is not iterable and the spread throws.
\<close>

fun iterate :: "jsv \<Rightarrow> error + jsv list" where
  "iterate (JArr xs) = Inr xs"
| "iterate (JStr s) = Inr (map (\<lambda>c. JStr [c]) s)"
| "iterate v = Inl TypeError"

text \<open>
  \<^verbatim>\<open>String(v)\<close>, needed where \<^verbatim>\<open>String.prototype.includes\<close> converts its argument. The
  rendering of a number is the engine's \<^verbatim>\<open>Number::toString\<close>, a parameter here.
\<close>

fun join_comma :: "string list \<Rightarrow> string" where
  "join_comma [] = []"
| "join_comma [s] = s"
| "join_comma (s # t # ts) = s @ '','' @ join_comma (t # ts)"

fun to_string :: "(rat \<Rightarrow> string) \<Rightarrow> jsv \<Rightarrow> string" where
  "to_string numstr JUndefined = ''undefined''"
| "to_string numstr JNull = ''null''"
| "to_string numstr (JBool b) = (if b then ''true'' else ''false'')"
| "to_string numstr (JNum n) = numstr n"
| "to_string numstr (JStr s) = s"
| "to_string numstr (JArr xs) =
     join_comma (map (\<lambda>x. if nullish x then [] else to_string numstr x) xs)"
| "to_string numstr (JObj kvs) = ''[object Object]''"

fun is_substring :: "string \<Rightarrow> string \<Rightarrow> bool" where
  "is_substring t [] = (t = [])"
| "is_substring t (c # cs) = (prefix t (c # cs) \<or> is_substring t cs)"

text \<open>
  \<^verbatim>\<open>recv?.includes(x)\<close>: undefined when \<open>recv\<close> is null or undefined; membership by
  SameValueZero (which is \<^verbatim>\<open>===\<close> on values without NaN) for an array; a substring test
  for a string; a TypeError for any other receiver, which has no callable \<^verbatim>\<open>includes\<close>.
\<close>

fun includes_opt :: "(rat \<Rightarrow> string) \<Rightarrow> jsv \<Rightarrow> jsv \<Rightarrow> error + jsv" where
  "includes_opt numstr JUndefined x = Inr JUndefined"
| "includes_opt numstr JNull x = Inr JUndefined"
| "includes_opt numstr (JArr ys) x = Inr (JBool (list_ex (\<lambda>y. strict_eq y x) ys))"
| "includes_opt numstr (JStr s) x = Inr (JBool (is_substring (to_string numstr x) s))"
| "includes_opt numstr v x = Inl TypeError"

text \<open>\<^verbatim>\<open>xs.map(f)\<close> with a callback that may throw: the first exception ends the loop.\<close>

fun map_err :: "('a \<Rightarrow> error + 'b) \<Rightarrow> 'a list \<Rightarrow> error + 'b list" where
  "map_err f [] = Inr []"
| "map_err f (x # xs) =
     (case f x of
        Inl e \<Rightarrow> Inl e
      | Inr y \<Rightarrow> (case map_err f xs of Inl e \<Rightarrow> Inl e | Inr ys \<Rightarrow> Inr (y # ys)))"

section \<open>The workflow state and its updaters\<close>

text \<open>
  \<^verbatim>\<open>workflowState\<close> is a JavaScript object; it is modelled as the map from its property
  names to their values, and \<open>field st k\<close> is the read \<^verbatim>\<open>st.k\<close>.
\<close>

type_synonym state = "string \<rightharpoonup> jsv"

definition field :: "state \<Rightarrow> string \<Rightarrow> jsv" where
  "field st k = (case st k of None \<Rightarrow> JUndefined | Some v \<Rightarrow> v)"

definition workflow_step :: "string \<Rightarrow> string \<Rightarrow> string \<Rightarrow> string \<Rightarrow> jsv" where
  "workflow_step i n s a =
     JObj [(''id'', JStr i), (''name'', JStr n), (''status'', JStr s), (''agent'', JStr a)]"

definition initial_steps :: "jsv list" where
  "initial_steps =
     [workflow_step ''triage'' ''Case Triage'' ''pending'' ''CaseTriageAgent'',
      workflow_step ''doctor_matching'' ''Doctor Matching'' ''pending'' ''DoctorMatchingAgent'',
      workflow_step ''appointment_coordination'' ''Appointment Coordination'' ''pending''
        ''AppointmentCoordinatorAgent'',
      workflow_step ''doctor_simulation'' ''Doctor Response Simulation'' ''pending''
        ''DoctorResponseSimulatorAgent'',
      workflow_step ''calendar_integration'' ''Calendar Integration'' ''pending''
        ''CalendarIntegrationAgent'',
      workflow_step ''health_recommendations'' ''Health Recommendations'' ''pending''
        ''HealthAdvisorAgent'']"

text \<open>The argument of \<^verbatim>\<open>useState\<close> (lines 5-21).\<close>

definition initial_state :: state where
  "initial_state =
     map_of
       [(''status'', JStr ''idle''),
        (''current_step'', JNull),
        (''completed_steps'', JArr []),
        (''progress_percentage'', JNum 0),
        (''messages'', JArr []),
        (''agent_activities'', JArr []),
        (''current_agent'', JNull),
        (''workflow_steps'', JArr initial_steps)]"

text \<open>\<^verbatim>\<open>{...prevState, ...d}\<close>: every own property of the patch overwrites the state's.\<close>

definition spread_state :: "state \<Rightarrow> jsv \<Rightarrow> state" where
  "spread_state prevState d = prevState ++ map_of (own_props d)"

text \<open>
  The readings of the clock one \<^verbatim>\<open>progress_update\<close> takes: \<^verbatim>\<open>new Date().toLocaleTimeString()\<close>
  for the message (line 70), \<^verbatim>\<open>Date.now()\<close> (line 77) and
  \<^verbatim>\<open>new Date().toLocaleTimeString()\<close> (line 78) for the activity.
\<close>

record clock =
  message_time :: string
  activity_id :: rat
  activity_time :: string

text \<open>Lines 66-72. \<open>d\<close> is \<^verbatim>\<open>data.data\<close>, already known not to be null or undefined.\<close>

definition add_message :: "clock \<Rightarrow> jsv \<Rightarrow> state \<Rightarrow> state \<Rightarrow> error + state" where
  "add_message clk d prevState newState =
     (if truthy (read_prop d ''message'') then
        (case iterate (field prevState ''messages'') of
           Inl e \<Rightarrow> Inl e
         | Inr ms \<Rightarrow>
             Inr (newState(''messages'' \<mapsto>
               JArr (ms @ [spread_with (read_prop d ''message'') ''timestamp''
                             (JStr (message_time clk))]))))
      else Inr newState)"

text \<open>Lines 76-83: the activity record synthesised from a patch.\<close>

definition activity_of :: "clock \<Rightarrow> jsv \<Rightarrow> jsv" where
  "activity_of clk d =
     JObj
       [(''id'', JNum (activity_id clk)),
        (''timestamp'', JStr (activity_time clk)),
        (''agent'',
           or_js (read_prop d ''current_agent'') (read_prop (read_prop d ''agent_activity'') ''agent'')),
        (''action'',
           or_js (or_js (read_prop (read_prop d ''agent_activity'') ''action'')
                        (read_prop (read_prop d ''message'') ''content''))
                 (JStr ''Processing...'')),
        (''status'', or_js (read_prop (read_prop d ''agent_activity'') ''status'') (JStr ''running'')),
        (''details'', or_js (read_prop (read_prop d ''agent_activity'') ''details'') JNull)]"

text \<open>The guard of line 75.\<close>

definition has_activity :: "jsv \<Rightarrow> bool" where
  "has_activity d \<longleftrightarrow>
     truthy (read_prop d ''current_agent'') \<or> truthy (read_prop d ''agent_activity'')"

text \<open>Lines 74-87.\<close>

definition track_activity :: "clock \<Rightarrow> jsv \<Rightarrow> state \<Rightarrow> state \<Rightarrow> error + state" where
  "track_activity clk d prevState newState =
     (if has_activity d then
        (case iterate (field prevState ''agent_activities'') of
           Inl e \<Rightarrow> Inl e
         | Inr acts \<Rightarrow>
             Inr (newState(''agent_activities'' \<mapsto> JArr (acts @ [activity_of clk d]),
                           ''current_agent'' \<mapsto> read_prop d ''current_agent'')))
      else Inr newState)"

text \<open>Lines 91-98: the callback of \<^verbatim>\<open>prevState.workflow_steps.map\<close>.\<close>

definition update_step :: "(rat \<Rightarrow> string) \<Rightarrow> state \<Rightarrow> jsv \<Rightarrow> jsv \<Rightarrow> error + jsv" where
  "update_step numstr prevState current_step step =
     (case get_prop step ''id'' of
        Inl e \<Rightarrow> Inl e
      | Inr sid \<Rightarrow>
          if strict_eq sid current_step then Inr (spread_with step ''status'' (JStr ''running''))
          else
            (case includes_opt numstr (field prevState ''completed_steps'') sid of
               Inl e \<Rightarrow> Inl e
             | Inr b \<Rightarrow>
                 if truthy b then Inr (spread_with step ''status'' (JStr ''completed''))
                 else Inr step))"

text \<open>
  Lines 89-99. Only an array has a callable \<^verbatim>\<open>map\<close>; on any other value of
  \<^verbatim>\<open>prevState.workflow_steps\<close> the call throws.
\<close>

definition update_workflow_steps ::
  "(rat \<Rightarrow> string) \<Rightarrow> jsv \<Rightarrow> state \<Rightarrow> state \<Rightarrow> error + state" where
  "update_workflow_steps numstr d prevState newState =
     (if truthy (read_prop d ''current_step'') then
        (case field prevState ''workflow_steps'' of
           JArr steps \<Rightarrow>
             (case map_err (update_step numstr prevState (read_prop d ''current_step'')) steps of
                Inl e \<Rightarrow> Inl e
              | Inr steps' \<Rightarrow> Inr (newState(''workflow_steps'' \<mapsto> JArr steps')))
         | _ \<Rightarrow> Inl TypeError)
      else Inr newState)"

text \<open>
  The updater passed to \<^verbatim>\<open>setWorkflowState\<close> for a \<^verbatim>\<open>progress_update\<close> frame (lines
  60-102), with \<open>d\<close> the frame's \<^verbatim>\<open>data\<close>. Spreading null or undefined copies nothing;
  the first read \<^verbatim>\<open>data.data.message\<close> throws on them.
\<close>

definition progress_update :: "(rat \<Rightarrow> string) \<Rightarrow> clock \<Rightarrow> jsv \<Rightarrow> state \<Rightarrow> error + state" where
  "progress_update numstr clk d prevState =
     (if nullish d then Inl TypeError
      else
        (case add_message clk d prevState (spread_state prevState d) of
           Inl e \<Rightarrow> Inl e
         | Inr s1 \<Rightarrow>
             (case track_activity clk d prevState s1 of
                Inl e \<Rightarrow> Inl e
              | Inr s2 \<Rightarrow> update_workflow_steps numstr d prevState s2)))"

text \<open>The updater for a \<^verbatim>\<open>session_update\<close> frame (lines 104-107).\<close>

definition session_update :: "jsv \<Rightarrow> state \<Rightarrow> state" where
  "session_update d prevState = spread_state prevState d"

section \<open>The component: connection handlers and lifecycle\<close>

text \<open>
  What the component does to the outside, in the order it does it: sockets constructed
  (tagged with the \<^verbatim>\<open>sessionId\<close> their URL is built from), frames sent (the value handed
  to \<^verbatim>\<open>JSON.stringify\<close>), \<^verbatim>\<open>close()\<close> calls and console output (the text without its
  pictograph prefix).
\<close>

datatype effect =
    NewWebSocket jsv
  | Send jsv
  | CloseSocket
  | ConsoleLog string
  | ConsoleError string

text \<open>
  The hooks of the component (lines 5-26): the three pieces of state, the socket ref
  (\<open>None\<close> is \<^verbatim>\<open>null\<close>, \<open>Some sid\<close> a socket constructed for \<open>sid\<close>), and whether the
  last run of the connection effect returned its cleanup function.
\<close>

record component =
  workflowState :: state
  isConnected :: bool
  connectionError :: jsv
  websocket :: "jsv option"
  cleanup :: bool
  effects :: "effect list"

definition initial_component :: component where
  "initial_component =
     \<lparr>workflowState = initial_state, isConnected = False, connectionError = JNull,
      websocket = None, cleanup = False, effects = []\<rparr>"

text \<open>Lines 46-53.\<close>

definition onopen :: "component \<Rightarrow> component" where
  "onopen c =
     c\<lparr>isConnected := True, connectionError := JNull,
       effects := effects c @
         [ConsoleLog ''Connected to workflow progress WebSocket'',
          Send (JObj [(''type'', JStr ''get_status'')])]\<rparr>"

text \<open>Lines 114-117.\<close>

definition onclose :: "component \<Rightarrow> component" where
  "onclose c =
     c\<lparr>isConnected := False,
       effects := effects c @ [ConsoleLog ''WebSocket connection closed'']\<rparr>"

text \<open>Lines 119-123.\<close>

definition onerror :: "component \<Rightarrow> component" where
  "onerror c =
     c\<lparr>connectionError := JStr ''Connection failed'', isConnected := False,
       effects := effects c @ [ConsoleError ''WebSocket error:'']\<rparr>"

text \<open>
  \<^verbatim>\<open>setWorkflowState(updater)\<close>. An exception of the updater is raised when React runs
  the updater and no new state is produced: \<open>Inl\<close> is that outcome. \<open>Inr\<close> is the
  component with the state the updater returned stored in the hook. The model ends there:
  the render that React then runs on the stored state (the component body, lines 209-421)
  is not part of it, so \<open>Inr\<close> says what the handler and its updater did, not that the
  view can draw the new state.
\<close>

definition setWorkflowState :: "(state \<Rightarrow> error + state) \<Rightarrow> component \<Rightarrow> error + component" where
  "setWorkflowState updater c =
     (case updater (workflowState c) of
        Inl e \<Rightarrow> Inl e
      | Inr st \<Rightarrow> Inr (c\<lparr>workflowState := st\<rparr>))"

text \<open>The outcome of \<^verbatim>\<open>JSON.parse(event.data)\<close>: it throws, or returns a value.\<close>

datatype payload = Unparseable | Parsed jsv

text \<open>
  Lines 55-112. The \<^verbatim>\<open>catch\<close> block logs what \<^verbatim>\<open>JSON.parse\<close> or the read
  \<^verbatim>\<open>data.type\<close> throws.
\<close>

definition onmessage ::
  "(rat \<Rightarrow> string) \<Rightarrow> clock \<Rightarrow> payload \<Rightarrow> component \<Rightarrow> error + component" where
  "onmessage numstr clk p c =
     (case p of
        Unparseable \<Rightarrow>
          Inr (c\<lparr>effects := effects c @ [ConsoleError ''Error parsing WebSocket message:'']\<rparr>)
      | Parsed data \<Rightarrow>
          (case get_prop data ''type'' of
             Inl e \<Rightarrow>
               Inr (c\<lparr>effects := effects c @ [ConsoleError ''Error parsing WebSocket message:'']\<rparr>)
           | Inr t \<Rightarrow>
               if strict_eq t (JStr ''progress_update'') then
                 setWorkflowState (progress_update numstr clk (read_prop data ''data'')) c
               else if strict_eq t (JStr ''session_update'') then
                 setWorkflowState (\<lambda>prevState. Inr (session_update (read_prop data ''data'') prevState)) c
               else Inr c))"

text \<open>Frames applied in arrival order, each with its own clock readings.\<close>

fun receive_all ::
  "(rat \<Rightarrow> string) \<Rightarrow> (clock \<times> payload) list \<Rightarrow> component \<Rightarrow> error + component" where
  "receive_all numstr [] c = Inr c"
| "receive_all numstr (f # fs) c =
     (case onmessage numstr (fst f) (snd f) c of
        Inl e \<Rightarrow> Inl e
      | Inr c' \<Rightarrow> receive_all numstr fs c')"

text \<open>
  The body of the connection effect (lines 38-131). \<open>ctor_ok\<close> tells whether
  \<^verbatim>\<open>new WebSocket(wsUrl)\<close> returns rather than throws. The second component of the result
  tells whether the effect returned its cleanup function (it does not on the early return).
\<close>

definition connectWebSocket :: "bool \<Rightarrow> jsv \<Rightarrow> component \<Rightarrow> component" where
  "connectWebSocket ctor_ok sessionId c =
     (if ctor_ok then
        c\<lparr>websocket := Some sessionId, effects := effects c @ [NewWebSocket sessionId]\<rparr>
      else
        c\<lparr>connectionError := JStr ''Failed to establish connection'',
          effects := effects c @ [ConsoleError ''Failed to connect WebSocket:'']\<rparr>)"

definition connection_effect :: "bool \<Rightarrow> jsv \<Rightarrow> bool \<Rightarrow> component \<Rightarrow> component \<times> bool" where
  "connection_effect ctor_ok sessionId isVisible c =
     (if \<not> truthy sessionId \<or> \<not> isVisible then (c, False)
      else (connectWebSocket ctor_ok sessionId c, True))"

text \<open>The cleanup function (lines 134-138).\<close>

definition cleanup_effect :: "component \<Rightarrow> component" where
  "cleanup_effect c =
     (if websocket c \<noteq> None then c\<lparr>effects := effects c @ [CloseSocket]\<rparr> else c)"

text \<open>
  The contract of \<^verbatim>\<open>useState\<close> and \<^verbatim>\<open>useEffect\<close> with the dependencies
  \<^verbatim>\<open>[sessionId, isVisible]\<close>: mounting starts from the initial hooks and runs the effect;
  a change of either prop runs the pending cleanup and then the effect again, the state
  hooks keeping their values; unmounting runs the pending cleanup.
\<close>

definition run_effect :: "bool \<Rightarrow> jsv \<Rightarrow> bool \<Rightarrow> component \<Rightarrow> component" where
  "run_effect ctor_ok sessionId isVisible c =
     (case connection_effect ctor_ok sessionId isVisible c of (c', b) \<Rightarrow> c'\<lparr>cleanup := b\<rparr>)"

definition run_cleanup :: "component \<Rightarrow> component" where
  "run_cleanup c = (if cleanup c then cleanup_effect c else c)\<lparr>cleanup := False\<rparr>"

definition mount :: "bool \<Rightarrow> jsv \<Rightarrow> bool \<Rightarrow> component" where
  "mount ctor_ok sessionId isVisible = run_effect ctor_ok sessionId isVisible initial_component"

definition set_props :: "bool \<Rightarrow> jsv \<Rightarrow> bool \<Rightarrow> component \<Rightarrow> component" where
  "set_props ctor_ok sessionId isVisible c = run_effect ctor_ok sessionId isVisible (run_cleanup c)"

definition unmount :: "component \<Rightarrow> component" where
  "unmount c = run_cleanup c"

text \<open>The text of the connection status line (lines 219-235).\<close>

definition connection_status :: "component \<Rightarrow> jsv" where
  "connection_status c =
     (if isConnected c then JStr ''Connected to workflow system''
      else or_js (connectionError c) (JStr ''Connecting...''))"

text \<open>
  Concrete parameters for the worked runs: a clock that reads the same time for the
  message and the activity, and a number rendering that is right on the integers (the
  runs never reach it).
\<close>

definition clock_at :: "string \<Rightarrow> rat \<Rightarrow> clock" where
  "clock_at t n = \<lparr>message_time = t, activity_id = n, activity_time = t\<rparr>"

definition integer_numstr :: "rat \<Rightarrow> string" where
  "integer_numstr r = (if r < 0 then ''-'' else []) @ string_of_nat (nat \<lfloor>\<bar>r\<bar>\<rfloor>)"

text \<open>A frame \<^verbatim>\<open>{type: t, data: d}\<close> as \<^verbatim>\<open>JSON.parse\<close> returns it.\<close>

definition frame :: "string \<Rightarrow> jsv \<Rightarrow> payload" where
  "frame t d = Parsed (JObj [(''type'', JStr t), (''data'', d)])"

text \<open>The type tag and the patch of a payload, as the handler reads them.\<close>

definition frame_type :: "payload \<Rightarrow> jsv" where
  "frame_type p = (case p of Unparseable \<Rightarrow> JUndefined | Parsed data \<Rightarrow> read_prop data ''type'')"

definition patch_of :: "payload \<Rightarrow> jsv" where
  "patch_of p = (case p of Unparseable \<Rightarrow> JUndefined | Parsed data \<Rightarrow> read_prop data ''data'')"

text \<open>The property names a patch carries.\<close>

definition carries :: "jsv \<Rightarrow> string \<Rightarrow> bool" where
  "carries d k \<longleftrightarrow> k \<in> fst ` set (own_props d)"

text \<open>A component that has mounted for a session, visible, and whose socket has opened.\<close>

definition connected :: "string \<Rightarrow> component" where
  "connected sid = onopen (mount True (JStr sid) True)"


section \<open>Facts about the updaters\<close>

lemma field_upd: "field (st(k \<mapsto> v)) k' = (if k' = k then v else field st k')"
  by (simp add: field_def)

lemma field_spread_absent:
  "\<not> carries d k \<Longrightarrow> field (spread_state st d) k = field st k"
proof -
  assume "\<not> carries d k"
  then have "map_of (own_props d) k = None"
    by (simp add: carries_def map_of_eq_None_iff)
  then show ?thesis
    by (simp add: field_def spread_state_def map_add_def)
qed

lemma add_message_other:
  "add_message clk d prevState newState = Inr s1 \<Longrightarrow> k \<noteq> ''messages'' \<Longrightarrow>
   field s1 k = field newState k"
  by (auto simp: add_message_def field_upd split: if_splits sum.splits)

lemma add_message_truthy:
  "add_message clk d prevState newState = Inr s1 \<Longrightarrow> truthy (read_prop d ''message'') \<Longrightarrow>
   \<exists>ms. iterate (field prevState ''messages'') = Inr ms \<and>
     field s1 ''messages'' =
       JArr (ms @ [spread_with (read_prop d ''message'') ''timestamp'' (JStr (message_time clk))])"
  by (auto simp: add_message_def field_upd split: if_splits sum.splits)

lemma add_message_falsy:
  "add_message clk d prevState newState = Inr s1 \<Longrightarrow> \<not> truthy (read_prop d ''message'') \<Longrightarrow>
   s1 = newState"
  by (auto simp: add_message_def split: if_splits sum.splits)

lemma track_activity_other:
  "track_activity clk d prevState s1 = Inr s2 \<Longrightarrow> k \<noteq> ''agent_activities'' \<Longrightarrow>
   k \<noteq> ''current_agent'' \<Longrightarrow> field s2 k = field s1 k"
  by (auto simp: track_activity_def field_upd split: if_splits sum.splits)

lemma track_activity_yes:
  "track_activity clk d prevState s1 = Inr s2 \<Longrightarrow> has_activity d \<Longrightarrow>
   \<exists>acts. iterate (field prevState ''agent_activities'') = Inr acts \<and>
     field s2 ''agent_activities'' = JArr (acts @ [activity_of clk d]) \<and>
     field s2 ''current_agent'' = read_prop d ''current_agent''"
  by (auto simp: track_activity_def field_upd split: if_splits sum.splits)

lemma track_activity_no:
  "track_activity clk d prevState s1 = Inr s2 \<Longrightarrow> \<not> has_activity d \<Longrightarrow> s2 = s1"
  by (auto simp: track_activity_def split: if_splits sum.splits)

lemma update_workflow_steps_other:
  "update_workflow_steps numstr d prevState s2 = Inr s3 \<Longrightarrow> k \<noteq> ''workflow_steps'' \<Longrightarrow>
   field s3 k = field s2 k"
  by (auto simp: update_workflow_steps_def field_upd split: if_splits sum.splits jsv.splits)

lemma progress_update_stages:
  "progress_update numstr clk d st = Inr st' \<Longrightarrow>
   \<not> nullish d \<and>
   (\<exists>s1 s2. add_message clk d st (spread_state st d) = Inr s1 \<and>
      track_activity clk d st s1 = Inr s2 \<and> update_workflow_steps numstr d st s2 = Inr st')"
  by (auto simp: progress_update_def split: if_splits sum.splits)

lemma setWorkflowState_Inr:
  "setWorkflowState u c = Inr c' \<Longrightarrow>
   \<exists>st'. u (workflowState c) = Inr st' \<and> c' = c\<lparr>workflowState := st'\<rparr>"
  by (auto simp: setWorkflowState_def split: sum.splits)

lemma onmessage_progress:
  "frame_type p = JStr ''progress_update'' \<Longrightarrow>
   onmessage numstr clk p c = setWorkflowState (progress_update numstr clk (patch_of p)) c"
proof (cases p)
  case Unparseable
  assume "frame_type p = JStr ''progress_update''"
  with Unparseable show ?thesis by (simp add: frame_type_def)
next
  case (Parsed data)
  assume "frame_type p = JStr ''progress_update''"
  with Parsed show ?thesis
    by (cases data)
       (simp_all add: frame_type_def patch_of_def onmessage_def get_prop_def strict_eq_def)
qed

lemma onmessage_session:
  "frame_type p = JStr ''session_update'' \<Longrightarrow>
   onmessage numstr clk p c =
     Inr (c\<lparr>workflowState := spread_state (workflowState c) (patch_of p)\<rparr>)"
proof (cases p)
  case Unparseable
  assume "frame_type p = JStr ''session_update''"
  with Unparseable show ?thesis by (simp add: frame_type_def)
next
  case (Parsed data)
  assume "frame_type p = JStr ''session_update''"
  with Parsed show ?thesis
    by (cases data)
       (simp_all add: frame_type_def patch_of_def onmessage_def get_prop_def strict_eq_def
          setWorkflowState_def session_update_def)
qed


section \<open>Step statuses\<close>

text \<open>
  C1. The specification's own scenario, run on the code: a fresh store receives
  \<^verbatim>\<open>{current_step: "triage"}\<close> and then
  \<^verbatim>\<open>{completed_steps: ["triage"], current_step: "doctor_matching"}\<close>. The merged state has
  \<^verbatim>\<open>current_step = "doctor_matching"\<close> and \<^verbatim>\<open>completed_steps = ["triage"]\<close>, yet the step
  \<^verbatim>\<open>triage\<close> is still \<^verbatim>\<open>running\<close>, not \<^verbatim>\<open>completed\<close>: the step loop tests the
  completed steps of the state before the merge and leaves a step it does not match as it was.
\<close>

theorem C1_scenario_triage_stays_running:
  "map_sum id
     (\<lambda>c. (field (workflowState c) ''current_step'',
           field (workflowState c) ''completed_steps'',
           field (workflowState c) ''workflow_steps''))
     (receive_all integer_numstr
        [(clock_at ''10:15:00'' 1,
          frame ''progress_update'' (JObj [(''current_step'', JStr ''triage'')])),
         (clock_at ''10:15:01'' 2,
          frame ''progress_update''
            (JObj [(''completed_steps'', JArr [JStr ''triage'']),
                   (''current_step'', JStr ''doctor_matching'')]))]
        (connected ''session-1''))
   = Inr (JStr ''doctor_matching'',
          JArr [JStr ''triage''],
          JArr
            [workflow_step ''triage'' ''Case Triage'' ''running'' ''CaseTriageAgent'',
             workflow_step ''doctor_matching'' ''Doctor Matching'' ''running''
               ''DoctorMatchingAgent'',
             workflow_step ''appointment_coordination'' ''Appointment Coordination'' ''pending''
               ''AppointmentCoordinatorAgent'',
             workflow_step ''doctor_simulation'' ''Doctor Response Simulation'' ''pending''
               ''DoctorResponseSimulatorAgent'',
             workflow_step ''calendar_integration'' ''Calendar Integration'' ''pending''
               ''CalendarIntegrationAgent'',
             workflow_step ''health_recommendations'' ''Health Recommendations'' ''pending''
               ''HealthAdvisorAgent''])"
  by code_simp

text \<open>
  C5. Two histories that end in the same \<^verbatim>\<open>current_step\<close> (\<^verbatim>\<open>"doctor_matching"\<close>) and the
  same \<^verbatim>\<open>completed_steps\<close> (empty) give different step statuses: after
  \<^verbatim>\<open>{current_step: "triage"}\<close>, \<^verbatim>\<open>{current_step: "doctor_matching"}\<close> the step
  \<^verbatim>\<open>triage\<close> is \<^verbatim>\<open>running\<close>; after \<^verbatim>\<open>{current_step: "doctor_matching"}\<close> alone it is
  \<^verbatim>\<open>pending\<close>. The statuses depend on the frames that came before, not only on the
  two fields.
\<close>

theorem C5_statuses_depend_on_history:
  "map_sum id
     (\<lambda>c. (field (workflowState c) ''current_step'',
           field (workflowState c) ''completed_steps'',
           field (workflowState c) ''workflow_steps''))
     (receive_all integer_numstr
        [(clock_at ''10:15:00'' 1,
          frame ''progress_update'' (JObj [(''current_step'', JStr ''triage'')])),
         (clock_at ''10:15:01'' 2,
          frame ''progress_update'' (JObj [(''current_step'', JStr ''doctor_matching'')]))]
        (connected ''session-1''))
   = Inr (JStr ''doctor_matching'',
          JArr [],
          JArr
            [workflow_step ''triage'' ''Case Triage'' ''running'' ''CaseTriageAgent'',
             workflow_step ''doctor_matching'' ''Doctor Matching'' ''running''
               ''DoctorMatchingAgent'',
             workflow_step ''appointment_coordination'' ''Appointment Coordination'' ''pending''
               ''AppointmentCoordinatorAgent'',
             workflow_step ''doctor_simulation'' ''Doctor Response Simulation'' ''pending''
               ''DoctorResponseSimulatorAgent'',
             workflow_step ''calendar_integration'' ''Calendar Integration'' ''pending''
               ''CalendarIntegrationAgent'',
             workflow_step ''health_recommendations'' ''Health Recommendations'' ''pending''
               ''HealthAdvisorAgent''])
   \<and>
   map_sum id
     (\<lambda>c. (field (workflowState c) ''current_step'',
           field (workflowState c) ''completed_steps'',
           field (workflowState c) ''workflow_steps''))
     (receive_all integer_numstr
        [(clock_at ''10:15:01'' 2,
          frame ''progress_update'' (JObj [(''current_step'', JStr ''doctor_matching'')]))]
        (connected ''session-1''))
   = Inr (JStr ''doctor_matching'',
          JArr [],
          JArr
            [workflow_step ''triage'' ''Case Triage'' ''pending'' ''CaseTriageAgent'',
             workflow_step ''doctor_matching'' ''Doctor Matching'' ''running''
               ''DoctorMatchingAgent'',
             workflow_step ''appointment_coordination'' ''Appointment Coordination'' ''pending''
               ''AppointmentCoordinatorAgent'',
             workflow_step ''doctor_simulation'' ''Doctor Response Simulation'' ''pending''
               ''DoctorResponseSimulatorAgent'',
             workflow_step ''calendar_integration'' ''Calendar Integration'' ''pending''
               ''CalendarIntegrationAgent'',
             workflow_step ''health_recommendations'' ''Health Recommendations'' ''pending''
               ''HealthAdvisorAgent''])"
  by code_simp


section \<open>The merge of a patch\<close>

text \<open>
  C2. A frame that carries \<^verbatim>\<open>agent_activity\<close> but no \<^verbatim>\<open>current_agent\<close> does not leave
  the stored \<^verbatim>\<open>current_agent\<close> alone: after \<^verbatim>\<open>{current_agent: "CaseTriageAgent"}\<close> the
  store holds \<^verbatim>\<open>"CaseTriageAgent"\<close>, and after a following
  \<^verbatim>\<open>{agent_activity: {agent: "CaseTriageAgent", action: "Analyzing scan"}}\<close> it holds
  \<^verbatim>\<open>undefined\<close> (line 86 assigns the frame's absent \<^verbatim>\<open>current_agent\<close>).
\<close>

theorem C2_agent_activity_clears_current_agent:
  "map_sum id (\<lambda>c. field (workflowState c) ''current_agent'')
     (receive_all integer_numstr
        [(clock_at ''10:15:00'' 1,
          frame ''progress_update'' (JObj [(''current_agent'', JStr ''CaseTriageAgent'')]))]
        (connected ''session-1''))
   = Inr (JStr ''CaseTriageAgent'')
   \<and>
   map_sum id (\<lambda>c. field (workflowState c) ''current_agent'')
     (receive_all integer_numstr
        [(clock_at ''10:15:00'' 1,
          frame ''progress_update'' (JObj [(''current_agent'', JStr ''CaseTriageAgent'')])),
         (clock_at ''10:15:01'' 2,
          frame ''progress_update''
            (JObj [(''agent_activity'',
                    JObj [(''agent'', JStr ''CaseTriageAgent''),
                          (''action'', JStr ''Analyzing scan'')])]))]
        (connected ''session-1''))
   = Inr JUndefined"
  by code_simp

lemma read_prop_spread_with:
  "read_prop (spread_with v k x) k' = (if k' = k then x else read_prop (JObj (own_props v)) k')"
  by (simp add: spread_with_def update_conv')

lemma progress_update_messages:
  assumes "progress_update numstr clk d st = Inr st'"
  shows "\<exists>s1. add_message clk d st (spread_state st d) = Inr s1 \<and>
           field st' ''messages'' = field s1 ''messages''"
proof -
  from assms obtain s1 s2 where
    a: "add_message clk d st (spread_state st d) = Inr s1" and
    t: "track_activity clk d st s1 = Inr s2" and
    u: "update_workflow_steps numstr d st s2 = Inr st'"
    using progress_update_stages by blast
  have "field st' ''messages'' = field s2 ''messages''"
    using update_workflow_steps_other [OF u] by simp
  also have "\<dots> = field s1 ''messages''"
    using track_activity_other [OF t] by simp
  finally show ?thesis using a by blast
qed

lemma progress_update_activities:
  assumes "progress_update numstr clk d st = Inr st'"
  shows "\<exists>s1 s2. add_message clk d st (spread_state st d) = Inr s1 \<and>
           track_activity clk d st s1 = Inr s2 \<and>
           field st' ''agent_activities'' = field s2 ''agent_activities''"
proof -
  from assms obtain s1 s2 where
    a: "add_message clk d st (spread_state st d) = Inr s1" and
    t: "track_activity clk d st s1 = Inr s2" and
    u: "update_workflow_steps numstr d st s2 = Inr st'"
    using progress_update_stages by blast
  have "field st' ''agent_activities'' = field s2 ''agent_activities''"
    using update_workflow_steps_other [OF u] by simp
  then show ?thesis using a t by blast
qed


section \<open>The message log\<close>

text \<open>
  C3, as the code has it. For every \<^verbatim>\<open>progress_update\<close> frame whose patch has a truthy
  \<^verbatim>\<open>message\<close> and whose update does not throw, the log afterwards is the log before
  followed by one entry, whatever the payload says about time. The entry is a copy of the
  message whose \<^verbatim>\<open>timestamp\<close> is the local receive time in every case, also when the
  payload carried a timestamp; every other property is the message's.
\<close>

theorem C3_message_appended_with_local_time:
  assumes "frame_type p = JStr ''progress_update''"
      and "truthy (read_prop (patch_of p) ''message'')"
      and "onmessage numstr clk p c = Inr c'"
  shows "\<exists>ms entry.
           iterate (field (workflowState c) ''messages'') = Inr ms \<and>
           entry = spread_with (read_prop (patch_of p) ''message'') ''timestamp''
                     (JStr (message_time clk)) \<and>
           field (workflowState c') ''messages'' = JArr (ms @ [entry]) \<and>
           read_prop entry ''timestamp'' = JStr (message_time clk) \<and>
           (\<forall>k. k \<noteq> ''timestamp'' \<longrightarrow>
              read_prop entry k = read_prop (JObj (own_props (read_prop (patch_of p) ''message''))) k)"
proof -
  from assms(1,3) obtain st' where
    u: "progress_update numstr clk (patch_of p) (workflowState c) = Inr st'" and
    c': "c' = c\<lparr>workflowState := st'\<rparr>"
    using onmessage_progress setWorkflowState_Inr by metis
  from progress_update_messages [OF u] obtain s1 where
    a: "add_message clk (patch_of p) (workflowState c) (spread_state (workflowState c) (patch_of p)) = Inr s1" and
    f: "field st' ''messages'' = field s1 ''messages''"
    by blast
  from add_message_truthy [OF a assms(2)] obtain ms where
    "iterate (field (workflowState c) ''messages'') = Inr ms"
    "field s1 ''messages'' =
       JArr (ms @ [spread_with (read_prop (patch_of p) ''message'') ''timestamp'' (JStr (message_time clk))])"
    by blast
  with f c' show ?thesis
    by (simp add: read_prop_spread_with)
qed

text \<open>
  The theorem at work on the specification's scenario: one message, stamped with the local
  time.
\<close>

theorem C3_message_appended_witness:
  "field (workflowState (projr (onmessage integer_numstr (clock_at ''10:15:00'' 1)
      (frame ''progress_update''
         (JObj [(''message'', JObj [(''content'', JStr ''Case classified as CRITICAL'')]),
                (''current_agent'', JStr ''CaseTriageAgent'')]))
      (connected ''session-1'')))) ''messages''
   = JArr [JObj [(''content'', JStr ''Case classified as CRITICAL''),
                 (''timestamp'', JStr ''10:15:00'')]]"
proof -
  let ?p = "frame ''progress_update''
         (JObj [(''message'', JObj [(''content'', JStr ''Case classified as CRITICAL'')]),
                (''current_agent'', JStr ''CaseTriageAgent'')])"
  let ?c = "connected ''session-1''"
  let ?r = "onmessage integer_numstr (clock_at ''10:15:00'' 1) ?p ?c"
  have ty: "frame_type ?p = JStr ''progress_update''"
    by (simp add: frame_def frame_type_def)
  have msg: "truthy (read_prop (patch_of ?p) ''message'')"
    by (simp add: frame_def patch_of_def)
  have "\<not> isl ?r" by code_simp
  then have run: "?r = Inr (projr ?r)" by (cases ?r) simp_all
  have old: "iterate (field (workflowState ?c) ''messages'') = Inr []"
    by code_simp
  have entry: "spread_with (read_prop (patch_of ?p) ''message'') ''timestamp''
                 (JStr (message_time (clock_at ''10:15:00'' 1)))
     = JObj [(''content'', JStr ''Case classified as CRITICAL''), (''timestamp'', JStr ''10:15:00'')]"
    by code_simp
  from C3_message_appended_with_local_time [OF ty msg run] old entry
  show ?thesis by auto
qed


text \<open>
  C3 as stated fails: a message that arrives with \<^verbatim>\<open>timestamp: "09:00:00"\<close> at local time
  \<^verbatim>\<open>10:15:00\<close> is logged with \<^verbatim>\<open>10:15:00\<close>; the payload's timestamp is not preserved.
\<close>

theorem C3_payload_timestamp_overwritten:
  "map_sum id (\<lambda>c. field (workflowState c) ''messages'')
     (onmessage integer_numstr (clock_at ''10:15:00'' 1)
        (frame ''progress_update''
           (JObj [(''message'',
                   JObj [(''content'', JStr ''Case classified as CRITICAL''),
                         (''timestamp'', JStr ''09:00:00'')])]))
        (connected ''session-1''))
   = Inr (JArr [JObj [(''content'', JStr ''Case classified as CRITICAL''),
                      (''timestamp'', JStr ''10:15:00'')]])"
  by code_simp


section \<open>The activity log\<close>

lemma onmessage_progress_activities:
  assumes ty: "frame_type p = JStr ''progress_update''"
      and run: "onmessage numstr clk p c = Inr c'"
      and log: "field (workflowState c) ''agent_activities'' = JArr acts"
      and own: "\<not> has_activity (patch_of p) \<longrightarrow> \<not> carries (patch_of p) ''agent_activities''"
  shows "field (workflowState c') ''agent_activities'' =
           JArr (acts @ (if has_activity (patch_of p) then [activity_of clk (patch_of p)] else []))"
proof -
  from ty run obtain st' where
    u: "progress_update numstr clk (patch_of p) (workflowState c) = Inr st'" and
    c': "c' = c\<lparr>workflowState := st'\<rparr>"
    using onmessage_progress setWorkflowState_Inr by metis
  from progress_update_activities [OF u] obtain s1 s2 where
    a: "add_message clk (patch_of p) (workflowState c) (spread_state (workflowState c) (patch_of p)) = Inr s1" and
    t: "track_activity clk (patch_of p) (workflowState c) s1 = Inr s2" and
    f: "field st' ''agent_activities'' = field s2 ''agent_activities''"
    by blast
  show ?thesis
  proof (cases "has_activity (patch_of p)")
    case True
    from track_activity_yes [OF t True] log have
      "field s2 ''agent_activities'' = JArr (acts @ [activity_of clk (patch_of p)])"
      by auto
    with True f c' show ?thesis by simp
  next
    case False
    with own have absent: "\<not> carries (patch_of p) ''agent_activities''" by simp
    from track_activity_no [OF t False] have "s2 = s1" .
    moreover have "field s1 ''agent_activities'' =
        field (spread_state (workflowState c) (patch_of p)) ''agent_activities''"
      using add_message_other [OF a] by simp
    ultimately have "field s2 ''agent_activities'' = JArr acts"
      using field_spread_absent [OF absent] log by simp
    with False f c' show ?thesis by simp
  qed
qed

lemma receive_all_activities:
  assumes "receive_all numstr fs c = Inr c'"
      and "\<forall>f\<in>set fs. frame_type (snd f) = JStr ''progress_update''"
      and "\<forall>f\<in>set fs. \<not> has_activity (patch_of (snd f)) \<longrightarrow>
             \<not> carries (patch_of (snd f)) ''agent_activities''"
      and "field (workflowState c) ''agent_activities'' = JArr acts"
  shows "field (workflowState c') ''agent_activities'' =
           JArr (acts @ map (\<lambda>f. activity_of (fst f) (patch_of (snd f)))
                          (filter (\<lambda>f. has_activity (patch_of (snd f))) fs))"
  using assms
proof (induction fs arbitrary: c acts)
  case Nil
  then show ?case by simp
next
  case (Cons f fs)
  from Cons.prems(1) obtain c1 where
    one: "onmessage numstr (fst f) (snd f) c = Inr c1" and
    rest: "receive_all numstr fs c1 = Inr c'"
    by (auto split: sum.splits)
  have ty: "frame_type (snd f) = JStr ''progress_update''"
    using Cons.prems(2) by simp
  have own: "\<not> has_activity (patch_of (snd f)) \<longrightarrow> \<not> carries (patch_of (snd f)) ''agent_activities''"
    using Cons.prems(3) by simp
  have log1: "field (workflowState c1) ''agent_activities'' =
      JArr (acts @ (if has_activity (patch_of (snd f)) then [activity_of (fst f) (patch_of (snd f))] else []))"
    by (rule onmessage_progress_activities [OF ty one Cons.prems(4) own])
  have "field (workflowState c') ''agent_activities'' =
      JArr ((acts @ (if has_activity (patch_of (snd f)) then [activity_of (fst f) (patch_of (snd f))] else [])) @
            map (\<lambda>f. activity_of (fst f) (patch_of (snd f)))
              (filter (\<lambda>f. has_activity (patch_of (snd f))) fs))"
    using Cons.IH [OF rest _ _ log1] Cons.prems(2,3) by simp
  then show ?case by simp
qed



text \<open>
  C4, as the code has it. Take any sequence of \<^verbatim>\<open>progress_update\<close> frames that is applied
  without an update throwing, from a store whose activity log is the array \<open>acts\<close>. A frame
  qualifies when its \<^verbatim>\<open>current_agent\<close> or its \<^verbatim>\<open>agent_activity\<close> is truthy (line 75);
  suppose no other frame carries an \<^verbatim>\<open>agent_activities\<close> property of its own. Then the log
  afterwards is \<open>acts\<close> followed by one record per qualifying frame, in arrival order, so
  it has grown by exactly the number of qualifying frames. In each record the agent is
  \<^verbatim>\<open>current_agent\<close> when truthy, else \<^verbatim>\<open>agent_activity.agent\<close>; the action is
  \<^verbatim>\<open>agent_activity.action\<close> when truthy, else \<^verbatim>\<open>message.content\<close> when truthy, else
  \<^verbatim>\<open>'Processing...'\<close>; the status is \<^verbatim>\<open>agent_activity.status\<close> when truthy, else
  \<^verbatim>\<open>'running'\<close>.
\<close>

theorem C4_one_record_per_qualifying_frame:
  assumes "receive_all numstr fs c = Inr c'"
      and "\<forall>f\<in>set fs. frame_type (snd f) = JStr ''progress_update''"
      and "\<forall>f\<in>set fs. \<not> has_activity (patch_of (snd f)) \<longrightarrow>
             \<not> carries (patch_of (snd f)) ''agent_activities''"
      and "field (workflowState c) ''agent_activities'' = JArr acts"
  shows "\<exists>recs.
           field (workflowState c') ''agent_activities'' = JArr (acts @ recs) \<and>
           recs = map (\<lambda>f. activity_of (fst f) (patch_of (snd f)))
                    (filter (\<lambda>f. has_activity (patch_of (snd f))) fs) \<and>
           length recs = length (filter (\<lambda>f. has_activity (patch_of (snd f))) fs) \<and>
           (\<forall>f\<in>set fs.
              read_prop (activity_of (fst f) (patch_of (snd f))) ''agent'' =
                (if truthy (read_prop (patch_of (snd f)) ''current_agent'')
                 then read_prop (patch_of (snd f)) ''current_agent''
                 else read_prop (read_prop (patch_of (snd f)) ''agent_activity'') ''agent'') \<and>
              read_prop (activity_of (fst f) (patch_of (snd f))) ''action'' =
                (if truthy (read_prop (read_prop (patch_of (snd f)) ''agent_activity'') ''action'')
                 then read_prop (read_prop (patch_of (snd f)) ''agent_activity'') ''action''
                 else if truthy (read_prop (read_prop (patch_of (snd f)) ''message'') ''content'')
                 then read_prop (read_prop (patch_of (snd f)) ''message'') ''content''
                 else JStr ''Processing...'') \<and>
              read_prop (activity_of (fst f) (patch_of (snd f))) ''status'' =
                (if truthy (read_prop (read_prop (patch_of (snd f)) ''agent_activity'') ''status'')
                 then read_prop (read_prop (patch_of (snd f)) ''agent_activity'') ''status''
                 else JStr ''running''))"
proof -
  have "field (workflowState c') ''agent_activities'' =
          JArr (acts @ map (\<lambda>f. activity_of (fst f) (patch_of (snd f)))
                         (filter (\<lambda>f. has_activity (patch_of (snd f))) fs))"
    by (rule receive_all_activities [OF assms])
  then show ?thesis
    by (simp add: activity_of_def or_js_def)
qed

text \<open>
  The theorem at work: of three frames, the first (a message and a \<^verbatim>\<open>current_agent\<close>) and
  the third (an \<^verbatim>\<open>agent_activity\<close>) qualify, and the log holds their two records.
\<close>

theorem C4_activity_log_witness:
  "field (workflowState (projr (receive_all integer_numstr
      [(clock_at ''10:15:00'' 1,
        frame ''progress_update''
          (JObj [(''message'', JObj [(''content'', JStr ''Case classified as CRITICAL'')]),
                 (''current_agent'', JStr ''CaseTriageAgent'')])),
       (clock_at ''10:15:01'' 2,
        frame ''progress_update'' (JObj [(''progress_percentage'', JNum 50)])),
       (clock_at ''10:15:02'' 3,
        frame ''progress_update''
          (JObj [(''agent_activity'',
                  JObj [(''agent'', JStr ''DoctorMatchingAgent''),
                        (''action'', JStr ''Selected 3 doctors''),
                        (''status'', JStr ''completed'')])]))]
      (connected ''session-1'')))) ''agent_activities''
   = JArr
       [JObj [(''id'', JNum 1), (''timestamp'', JStr ''10:15:00''),
              (''agent'', JStr ''CaseTriageAgent''),
              (''action'', JStr ''Case classified as CRITICAL''),
              (''status'', JStr ''running''), (''details'', JNull)],
        JObj [(''id'', JNum 3), (''timestamp'', JStr ''10:15:02''),
              (''agent'', JStr ''DoctorMatchingAgent''),
              (''action'', JStr ''Selected 3 doctors''),
              (''status'', JStr ''completed''), (''details'', JNull)]]"
proof -
  let ?fs = "[(clock_at ''10:15:00'' 1,
        frame ''progress_update''
          (JObj [(''message'', JObj [(''content'', JStr ''Case classified as CRITICAL'')]),
                 (''current_agent'', JStr ''CaseTriageAgent'')])),
       (clock_at ''10:15:01'' 2,
        frame ''progress_update'' (JObj [(''progress_percentage'', JNum 50)])),
       (clock_at ''10:15:02'' 3,
        frame ''progress_update''
          (JObj [(''agent_activity'',
                  JObj [(''agent'', JStr ''DoctorMatchingAgent''),
                        (''action'', JStr ''Selected 3 doctors''),
                        (''status'', JStr ''completed'')])]))]"
  let ?c = "connected ''session-1''"
  let ?r = "receive_all integer_numstr ?fs ?c"
  have "\<not> isl ?r" by code_simp
  then have run: "?r = Inr (projr ?r)" by (cases ?r) simp_all
  have ty: "\<forall>f\<in>set ?fs. frame_type (snd f) = JStr ''progress_update''"
    by (simp add: frame_def frame_type_def)
  have own: "\<forall>f\<in>set ?fs. \<not> has_activity (patch_of (snd f)) \<longrightarrow>
               \<not> carries (patch_of (snd f)) ''agent_activities''"
    by (simp add: frame_def patch_of_def carries_def)
  have log: "field (workflowState ?c) ''agent_activities'' = JArr []"
    by code_simp
  have recs: "map (\<lambda>f. activity_of (fst f) (patch_of (snd f)))
                (filter (\<lambda>f. has_activity (patch_of (snd f))) ?fs)
     = [JObj [(''id'', JNum 1), (''timestamp'', JStr ''10:15:00''),
              (''agent'', JStr ''CaseTriageAgent''),
              (''action'', JStr ''Case classified as CRITICAL''),
              (''status'', JStr ''running''), (''details'', JNull)],
        JObj [(''id'', JNum 3), (''timestamp'', JStr ''10:15:02''),
              (''agent'', JStr ''DoctorMatchingAgent''),
              (''action'', JStr ''Selected 3 doctors''),
              (''status'', JStr ''completed''), (''details'', JNull)]]"
    by code_simp
  from C4_one_record_per_qualifying_frame [OF run ty own log] recs
  show ?thesis by simp
qed


text \<open>
  C4 as stated fails in two ways. A frame that contains \<^verbatim>\<open>current_agent: null\<close> adds no
  record (the guard tests truthiness, not presence). And a frame that carries its own
  \<^verbatim>\<open>agent_activities\<close> replaces the log: after \<^verbatim>\<open>{current_agent: "CaseTriageAgent"}\<close> and
  \<^verbatim>\<open>{agent_activities: []}\<close>, one qualifying frame has arrived and the log is empty.
\<close>

theorem C4_log_length_differs_from_frame_count:
  "map_sum id (\<lambda>c. field (workflowState c) ''agent_activities'')
     (receive_all integer_numstr
        [(clock_at ''10:15:00'' 1,
          frame ''progress_update''
            (JObj [(''status'', JStr ''running''), (''current_agent'', JNull)]))]
        (connected ''session-1''))
   = Inr (JArr [])
   \<and>
   map_sum id (\<lambda>c. field (workflowState c) ''agent_activities'')
     (receive_all integer_numstr
        [(clock_at ''10:15:00'' 1,
          frame ''progress_update'' (JObj [(''current_agent'', JStr ''CaseTriageAgent'')])),
         (clock_at ''10:15:01'' 2,
          frame ''progress_update'' (JObj [(''agent_activities'', JArr [])]))]
        (connected ''session-1''))
   = Inr (JArr [])"
  by code_simp

section \<open>What an update leaves alone, and when it returns\<close>

text \<open>
  A property that a \<^verbatim>\<open>progress_update\<close> patch does not carry keeps its value, unless it is
  one of the four the updater writes itself.
\<close>

lemma progress_update_absent_field:
  assumes run: "progress_update numstr clk d st = Inr st'"
      and k: "k \<noteq> ''messages''" "k \<noteq> ''agent_activities''" "k \<noteq> ''current_agent''"
             "k \<noteq> ''workflow_steps''"
      and absent: "\<not> carries d k"
  shows "field st' k = field st k"
proof -
  from run obtain s1 s2 where
    a: "add_message clk d st (spread_state st d) = Inr s1" and
    t: "track_activity clk d st s1 = Inr s2" and
    u: "update_workflow_steps numstr d st s2 = Inr st'"
    using progress_update_stages by blast
  have "field st' k = field s2 k"
    using update_workflow_steps_other [OF u k(4)] .
  also have "\<dots> = field s1 k"
    using track_activity_other [OF t k(2,3)] .
  also have "\<dots> = field (spread_state st d) k"
    using add_message_other [OF a k(1)] .
  also have "\<dots> = field st k"
    using field_spread_absent [OF absent] .
  finally show ?thesis .
qed

lemma map_err_returns:
  "\<forall>x\<in>set xs. \<exists>y. f x = Inr y \<Longrightarrow> \<exists>ys. map_err f xs = Inr ys"
proof (induction xs)
  case Nil
  show ?case by simp
next
  case (Cons x xs)
  then obtain y ys where "f x = Inr y" "map_err f xs = Inr ys" by auto
  then show ?case by simp
qed

lemma update_step_returns:
  assumes "\<not> nullish step"
      and "field prevState ''completed_steps'' = JArr done \<or>
           nullish (field prevState ''completed_steps'')"
  shows "\<exists>step'. update_step numstr prevState cur step = Inr step'"
proof -
  from assms(2) obtain b where
    "includes_opt numstr (field prevState ''completed_steps'') (read_prop step ''id'') = Inr b"
    by (cases "field prevState ''completed_steps''") auto
  with assms(1) show ?thesis
    by (simp add: update_step_def get_prop_def)
qed

lemma progress_update_returns:
  assumes d: "\<not> nullish d"
      and ms: "field st ''messages'' = JArr ms"
      and acts: "field st ''agent_activities'' = JArr acts"
      and steps: "field st ''workflow_steps'' = JArr steps" "\<forall>step\<in>set steps. \<not> nullish step"
      and completed: "field st ''completed_steps'' = JArr done \<or> nullish (field st ''completed_steps'')"
  shows "\<exists>st'. progress_update numstr clk d st = Inr st'"
proof -
  obtain s1 where a: "add_message clk d st (spread_state st d) = Inr s1"
    by (cases "truthy (read_prop d ''message'')") (simp_all add: add_message_def ms)
  obtain s2 where t: "track_activity clk d st s1 = Inr s2"
    by (cases "has_activity d") (simp_all add: track_activity_def acts)
  have "\<forall>step\<in>set steps. \<exists>y. update_step numstr st (read_prop d ''current_step'') step = Inr y"
    using steps(2) update_step_returns [OF _ completed] by blast
  then obtain steps' where
    "map_err (update_step numstr st (read_prop d ''current_step'')) steps = Inr steps'"
    using map_err_returns by blast
  then obtain s3 where u: "update_workflow_steps numstr d st s2 = Inr s3"
    by (cases "truthy (read_prop d ''current_step'')")
       (simp_all add: update_workflow_steps_def steps(1))
  from d a t u show ?thesis
    by (simp add: progress_update_def)
qed


section \<open>Session updates\<close>

text \<open>
  C10, as the code has it, for the message handler and its updater (lines 55-112); the
  render that React runs afterwards on the stored state is outside the statement. For a
  \<^verbatim>\<open>session_update\<close> frame the handler does nothing but call \<^verbatim>\<open>setWorkflowState\<close> with
  the \<^verbatim>\<open>session_update\<close> updater; the updater does not throw, and the state it stores is
  the shallow overwrite \<^verbatim>\<open>{...prevState, ...data.data}\<close>: every property the patch carries
  takes the patch's value and every other property keeps its own. The handler itself
  sends nothing, logs nothing and reads no clock. So in the stored state the message log,
  the activity log and the steps are unchanged exactly for the frames whose patch does not
  carry \<^verbatim>\<open>messages\<close>, \<^verbatim>\<open>agent_activities\<close> or \<^verbatim>\<open>workflow_steps\<close>; a \<^verbatim>\<open>message\<close>,
  \<^verbatim>\<open>current_agent\<close>, \<^verbatim>\<open>agent_activity\<close> or \<^verbatim>\<open>current_step\<close> in the patch triggers
  nothing.
\<close>

theorem C10_session_update_is_shallow_overwrite:
  assumes "frame_type p = JStr ''session_update''"
  shows "onmessage numstr clk p c =
           setWorkflowState (\<lambda>prevState. Inr (session_update (patch_of p) prevState)) c \<and>
         setWorkflowState (\<lambda>prevState. Inr (session_update (patch_of p) prevState)) c =
           Inr (c\<lparr>workflowState := spread_state (workflowState c) (patch_of p)\<rparr>) \<and>
         (\<forall>prevState. session_update (patch_of p) prevState =
            spread_state prevState (patch_of p)) \<and>
         (\<forall>k. \<not> carries (patch_of p) k \<longrightarrow>
            field (spread_state (workflowState c) (patch_of p)) k = field (workflowState c) k) \<and>
         (\<forall>k v. map_of (own_props (patch_of p)) k = Some v \<longrightarrow>
            field (spread_state (workflowState c) (patch_of p)) k = v)"
proof -
  have stored: "setWorkflowState (\<lambda>prevState. Inr (session_update (patch_of p) prevState)) c =
           Inr (c\<lparr>workflowState := spread_state (workflowState c) (patch_of p)\<rparr>)"
    by (simp add: setWorkflowState_def session_update_def)
  have handler: "onmessage numstr clk p c =
           setWorkflowState (\<lambda>prevState. Inr (session_update (patch_of p) prevState)) c"
    using assms by (simp add: onmessage_session stored)
  have carried: "\<forall>k v. map_of (own_props (patch_of p)) k = Some v \<longrightarrow>
            field (spread_state (workflowState c) (patch_of p)) k = v"
    by (simp add: field_def spread_state_def)
  from handler stored carried show ?thesis
    by (simp add: field_spread_absent session_update_def)
qed

text \<open>
  The theorem at work: the handler, given a \<^verbatim>\<open>session_update\<close> with a status, a message,
  an agent and a step, stores a state with the new status, both logs empty and the steps
  pending, and adds nothing to what the handlers have done.
\<close>

theorem C10_session_update_witness:
  "map_sum id
     (\<lambda>c. (field (workflowState c) ''status'', field (workflowState c) ''messages'',
           field (workflowState c) ''agent_activities'', field (workflowState c) ''workflow_steps'',
           effects c))
     (onmessage integer_numstr (clock_at ''10:15:00'' 1)
        (frame ''session_update''
           (JObj [(''status'', JStr ''running''),
                  (''message'', JObj [(''content'', JStr ''not logged'')]),
                  (''current_agent'', JStr ''CaseTriageAgent''),
                  (''current_step'', JStr ''triage'')]))
        (connected ''session-1''))
   = Inr (JStr ''running'', JArr [], JArr [], JArr initial_steps, effects (connected ''session-1''))"
proof -
  let ?d = "JObj [(''status'', JStr ''running''),
                  (''message'', JObj [(''content'', JStr ''not logged'')]),
                  (''current_agent'', JStr ''CaseTriageAgent''),
                  (''current_step'', JStr ''triage'')]"
  let ?p = "frame ''session_update'' ?d"
  let ?c = "connected ''session-1''"
  have ty: "frame_type ?p = JStr ''session_update''"
    by (simp add: frame_def frame_type_def)
  have pd: "patch_of ?p = ?d"
    by (simp add: frame_def patch_of_def)
  have absent: "\<not> carries ?d ''messages''" "\<not> carries ?d ''agent_activities''"
      "\<not> carries ?d ''workflow_steps''"
    by (simp_all add: carries_def)
  have present: "map_of (own_props ?d) ''status'' = Some (JStr ''running'')"
    by simp
  have init: "field (workflowState ?c) ''messages'' = JArr []"
     "field (workflowState ?c) ''agent_activities'' = JArr []"
     "field (workflowState ?c) ''workflow_steps'' = JArr initial_steps"
    by (simp_all add: connected_def onopen_def mount_def run_effect_def connection_effect_def
        connectWebSocket_def initial_component_def field_def initial_state_def)
  note overwrite =
    C10_session_update_is_shallow_overwrite [OF ty, of integer_numstr "clock_at ''10:15:00'' 1" ?c]
  from overwrite have
    handler: "onmessage integer_numstr (clock_at ''10:15:00'' 1) ?p ?c =
       setWorkflowState (\<lambda>prevState. Inr (session_update (patch_of ?p) prevState)) ?c" and
    stored: "setWorkflowState (\<lambda>prevState. Inr (session_update (patch_of ?p) prevState)) ?c =
       Inr (?c\<lparr>workflowState := spread_state (workflowState ?c) (patch_of ?p)\<rparr>)" and
    kept: "\<forall>k. \<not> carries (patch_of ?p) k \<longrightarrow>
       field (spread_state (workflowState ?c) (patch_of ?p)) k = field (workflowState ?c) k" and
    carried: "\<forall>k v. map_of (own_props (patch_of ?p)) k = Some v \<longrightarrow>
       field (spread_state (workflowState ?c) (patch_of ?p)) k = v"
    by blast+
  from handler stored have run:
    "onmessage integer_numstr (clock_at ''10:15:00'' 1) ?p ?c =
       Inr (?c\<lparr>workflowState := spread_state (workflowState ?c) (patch_of ?p)\<rparr>)"
    by (rule trans)
  from kept carried absent present init show ?thesis
    unfolding run pd by simp
qed

text \<open>
  C10 as stated fails: for a \<^verbatim>\<open>session_update\<close> whose patch carries \<^verbatim>\<open>workflow_steps\<close>
  and \<^verbatim>\<open>messages\<close>, the state the updater stores has the six steps replaced (here by
  none, an array the view can still draw) and an entry in the message log.
\<close>

theorem C10_patch_replaces_steps_and_log:
  "map_sum id
     (\<lambda>c. (field (workflowState c) ''workflow_steps'', field (workflowState c) ''messages''))
     (onmessage integer_numstr (clock_at ''10:15:00'' 1)
        (frame ''session_update''
           (JObj [(''workflow_steps'', JArr []),
                  (''messages'', JArr [JObj [(''content'', JStr ''from the server'')]])]))
        (connected ''session-1''))
   = Inr (JArr [], JArr [JObj [(''content'', JStr ''from the server'')]])"
  by code_simp


section \<open>The logs only grow, unless a patch replaces them\<close>

lemma strict_eq_JStr: "strict_eq t (JStr s) \<longleftrightarrow> t = JStr s"
  by (cases t) (auto simp: strict_eq_def)

lemma onmessage_other:
  "\<not> nullish data \<Longrightarrow> read_prop data ''type'' \<noteq> JStr ''progress_update'' \<Longrightarrow>
   read_prop data ''type'' \<noteq> JStr ''session_update'' \<Longrightarrow>
   onmessage numstr clk (Parsed data) c = Inr c"
  by (simp add: onmessage_def get_prop_def strict_eq_JStr)

lemma onmessage_nullish:
  "nullish data \<Longrightarrow>
   onmessage numstr clk (Parsed data) c =
     Inr (c\<lparr>effects := effects c @ [ConsoleError ''Error parsing WebSocket message:'']\<rparr>)"
  by (simp add: onmessage_def get_prop_def)

lemma onmessage_Inr_cases:
  assumes "onmessage numstr clk p c = Inr c'"
  shows "frame_type p = JStr ''progress_update'' \<or> frame_type p = JStr ''session_update'' \<or>
         workflowState c' = workflowState c"
proof (cases p)
  case Unparseable
  with assms show ?thesis by (auto simp: onmessage_def)
next
  case (Parsed data)
  show ?thesis
  proof (cases "nullish data")
    case True
    with assms Parsed show ?thesis by (auto simp: onmessage_nullish)
  next
    case False
    with assms Parsed show ?thesis
      by (cases "read_prop data ''type'' = JStr ''progress_update''";
          cases "read_prop data ''type'' = JStr ''session_update''")
         (auto simp: onmessage_other frame_type_def)
  qed
qed

lemma onmessage_progress_messages:
  assumes ty: "frame_type p = JStr ''progress_update''"
      and run: "onmessage numstr clk p c = Inr c'"
      and log: "field (workflowState c) ''messages'' = JArr ms"
      and own: "\<not> truthy (read_prop (patch_of p) ''message'') \<longrightarrow> \<not> carries (patch_of p) ''messages''"
  shows "field (workflowState c') ''messages'' =
           JArr (ms @ (if truthy (read_prop (patch_of p) ''message'')
                       then [spread_with (read_prop (patch_of p) ''message'') ''timestamp''
                               (JStr (message_time clk))]
                       else []))"
proof -
  from ty run obtain st' where
    u: "progress_update numstr clk (patch_of p) (workflowState c) = Inr st'" and
    c': "c' = c\<lparr>workflowState := st'\<rparr>"
    using onmessage_progress setWorkflowState_Inr by metis
  from progress_update_messages [OF u] obtain s1 where
    a: "add_message clk (patch_of p) (workflowState c) (spread_state (workflowState c) (patch_of p)) = Inr s1" and
    f: "field st' ''messages'' = field s1 ''messages''"
    by blast
  show ?thesis
  proof (cases "truthy (read_prop (patch_of p) ''message'')")
    case True
    from add_message_truthy [OF a True] log have
      "field s1 ''messages'' =
         JArr (ms @ [spread_with (read_prop (patch_of p) ''message'') ''timestamp''
                       (JStr (message_time clk))])"
      by auto
    with True f c' show ?thesis by simp
  next
    case False
    with own have absent: "\<not> carries (patch_of p) ''messages''" by simp
    from add_message_falsy [OF a False] have "s1 = spread_state (workflowState c) (patch_of p)" .
    then have "field s1 ''messages'' = JArr ms"
      using field_spread_absent [OF absent] log by simp
    with False f c' show ?thesis by simp
  qed
qed

text \<open>
  C8, as the code has it. Whatever the frame and the state, if the handler returns: a
  message log that was an array is a prefix of the new one when the patch carries no
  \<^verbatim>\<open>messages\<close> property of its own, and likewise for the activity log and
  \<^verbatim>\<open>agent_activities\<close>. And a \<^verbatim>\<open>progress_update\<close> frame with a truthy message and an
  activity, applied twice, leaves two entries in each log after the old ones, equal up to
  the clock readings.
\<close>

theorem C8_logs_grow_by_appending:
  assumes run: "onmessage numstr clk p c = Inr c'"
  shows "(field (workflowState c) ''messages'' = JArr ms \<and> \<not> carries (patch_of p) ''messages'' \<longrightarrow>
            (\<exists>extra. field (workflowState c') ''messages'' = JArr (ms @ extra))) \<and>
         (field (workflowState c) ''agent_activities'' = JArr acts \<and>
            \<not> carries (patch_of p) ''agent_activities'' \<longrightarrow>
            (\<exists>extra. field (workflowState c') ''agent_activities'' = JArr (acts @ extra))) \<and>
         (\<forall>clk2 c2.
            frame_type p = JStr ''progress_update'' \<and>
            truthy (read_prop (patch_of p) ''message'') \<and> has_activity (patch_of p) \<and>
            field (workflowState c) ''messages'' = JArr ms \<and>
            field (workflowState c) ''agent_activities'' = JArr acts \<and>
            onmessage numstr clk2 p c' = Inr c2 \<longrightarrow>
            field (workflowState c2) ''messages'' =
              JArr (ms @ [spread_with (read_prop (patch_of p) ''message'') ''timestamp''
                            (JStr (message_time clk)),
                          spread_with (read_prop (patch_of p) ''message'') ''timestamp''
                            (JStr (message_time clk2))]) \<and>
            field (workflowState c2) ''agent_activities'' =
              JArr (acts @ [activity_of clk (patch_of p), activity_of clk2 (patch_of p)]))"
proof (intro conjI impI allI)
  assume h: "field (workflowState c) ''messages'' = JArr ms \<and> \<not> carries (patch_of p) ''messages''"
  from onmessage_Inr_cases [OF run]
  show "\<exists>extra. field (workflowState c') ''messages'' = JArr (ms @ extra)"
  proof (elim disjE)
    assume ty: "frame_type p = JStr ''progress_update''"
    from onmessage_progress_messages [OF ty run, of ms] h show ?thesis by blast
  next
    assume ty: "frame_type p = JStr ''session_update''"
    from run have "c' = c\<lparr>workflowState := spread_state (workflowState c) (patch_of p)\<rparr>"
      by (simp add: onmessage_session [OF ty])
    with h field_spread_absent [of "patch_of p" "''messages''" "workflowState c"]
    show ?thesis by simp
  next
    assume "workflowState c' = workflowState c"
    with h show ?thesis by simp
  qed
next
  assume h: "field (workflowState c) ''agent_activities'' = JArr acts \<and>
             \<not> carries (patch_of p) ''agent_activities''"
  from onmessage_Inr_cases [OF run]
  show "\<exists>extra. field (workflowState c') ''agent_activities'' = JArr (acts @ extra)"
  proof (elim disjE)
    assume ty: "frame_type p = JStr ''progress_update''"
    from onmessage_progress_activities [OF ty run, of acts] h show ?thesis by blast
  next
    assume ty: "frame_type p = JStr ''session_update''"
    from run have "c' = c\<lparr>workflowState := spread_state (workflowState c) (patch_of p)\<rparr>"
      by (simp add: onmessage_session [OF ty])
    with h field_spread_absent [of "patch_of p" "''agent_activities''" "workflowState c"]
    show ?thesis by simp
  next
    assume "workflowState c' = workflowState c"
    with h show ?thesis by simp
  qed
next
  fix clk2 c2
  assume h: "frame_type p = JStr ''progress_update'' \<and>
            truthy (read_prop (patch_of p) ''message'') \<and> has_activity (patch_of p) \<and>
            field (workflowState c) ''messages'' = JArr ms \<and>
            field (workflowState c) ''agent_activities'' = JArr acts \<and>
            onmessage numstr clk2 p c' = Inr c2"
  then have ty: "frame_type p = JStr ''progress_update''"
    and run2: "onmessage numstr clk2 p c' = Inr c2" by simp_all
  from h onmessage_progress_messages [OF ty run, of ms] have m1:
    "field (workflowState c') ''messages'' =
       JArr (ms @ [spread_with (read_prop (patch_of p) ''message'') ''timestamp''
                     (JStr (message_time clk))])"
    by simp
  from h onmessage_progress_messages [OF ty run2 m1]
  show "field (workflowState c2) ''messages'' =
              JArr (ms @ [spread_with (read_prop (patch_of p) ''message'') ''timestamp''
                            (JStr (message_time clk)),
                          spread_with (read_prop (patch_of p) ''message'') ''timestamp''
                            (JStr (message_time clk2))])"
    by simp
  from h onmessage_progress_activities [OF ty run, of acts] have a1:
    "field (workflowState c') ''agent_activities'' = JArr (acts @ [activity_of clk (patch_of p)])"
    by simp
  from h onmessage_progress_activities [OF ty run2 a1]
  show "field (workflowState c2) ''agent_activities'' =
              JArr (acts @ [activity_of clk (patch_of p), activity_of clk2 (patch_of p)])"
    by simp
qed

text \<open>
  The theorem at work: the same frame twice at the same clock reading gives the same
  message entry twice.
\<close>

theorem C8_duplicate_frame_witness:
  "field (workflowState (projr (receive_all integer_numstr
      [(clock_at ''10:15:00'' 1,
        frame ''progress_update''
          (JObj [(''message'', JObj [(''content'', JStr ''Case classified as CRITICAL'')]),
                 (''current_agent'', JStr ''CaseTriageAgent'')])),
       (clock_at ''10:15:00'' 1,
        frame ''progress_update''
          (JObj [(''message'', JObj [(''content'', JStr ''Case classified as CRITICAL'')]),
                 (''current_agent'', JStr ''CaseTriageAgent'')]))]
      (connected ''session-1'')))) ''messages''
   = JArr [JObj [(''content'', JStr ''Case classified as CRITICAL''), (''timestamp'', JStr ''10:15:00'')],
           JObj [(''content'', JStr ''Case classified as CRITICAL''), (''timestamp'', JStr ''10:15:00'')]]"
proof -
  let ?clk = "clock_at ''10:15:00'' 1"
  let ?p = "frame ''progress_update''
          (JObj [(''message'', JObj [(''content'', JStr ''Case classified as CRITICAL'')]),
                 (''current_agent'', JStr ''CaseTriageAgent'')])"
  let ?c = "connected ''session-1''"
  let ?r1 = "onmessage integer_numstr ?clk ?p ?c"
  let ?r2 = "onmessage integer_numstr ?clk ?p (projr ?r1)"
  have "\<not> isl ?r1" by code_simp
  then obtain c1 where run1: "?r1 = Inr c1" by (cases ?r1) simp_all
  have "\<not> isl ?r2" by code_simp
  then obtain c2 where run2: "onmessage integer_numstr ?clk ?p c1 = Inr c2"
    unfolding run1 by (cases "onmessage integer_numstr ?clk ?p c1") simp_all
  have all: "receive_all integer_numstr [(?clk, ?p), (?clk, ?p)] ?c = Inr c2"
    by (simp add: run1 run2)
  have ty: "frame_type ?p = JStr ''progress_update''"
    by (simp add: frame_def frame_type_def)
  have msg: "truthy (read_prop (patch_of ?p) ''message'')"
    by (simp add: frame_def patch_of_def)
  have act: "has_activity (patch_of ?p)"
    by (simp add: frame_def patch_of_def has_activity_def)
  have m0: "field (workflowState ?c) ''messages'' = JArr []" by code_simp
  have a0: "field (workflowState ?c) ''agent_activities'' = JArr []" by code_simp
  have entry: "spread_with (read_prop (patch_of ?p) ''message'') ''timestamp''
                 (JStr (message_time ?clk))
     = JObj [(''content'', JStr ''Case classified as CRITICAL''), (''timestamp'', JStr ''10:15:00'')]"
    by code_simp
  from C8_logs_grow_by_appending [OF run1, of "[]" "[]"] ty msg act m0 a0 run2
  have "field (workflowState c2) ''messages'' =
          JArr ([] @ [spread_with (read_prop (patch_of ?p) ''message'') ''timestamp''
                            (JStr (message_time ?clk)),
                      spread_with (read_prop (patch_of ?p) ''message'') ''timestamp''
                            (JStr (message_time ?clk))])"
    by blast
  with entry all show ?thesis by simp
qed

text \<open>
  C8 as stated fails: after one message the log has one entry, and a following
  \<^verbatim>\<open>session_update\<close> whose patch carries \<^verbatim>\<open>messages: []\<close> empties it.
\<close>

theorem C8_patch_replaces_log:
  "map_sum id (\<lambda>c. field (workflowState c) ''messages'')
     (receive_all integer_numstr
        [(clock_at ''10:15:00'' 1,
          frame ''progress_update''
            (JObj [(''message'', JObj [(''content'', JStr ''Case classified as CRITICAL'')])]))]
        (connected ''session-1''))
   = Inr (JArr [JObj [(''content'', JStr ''Case classified as CRITICAL''),
                      (''timestamp'', JStr ''10:15:00'')]])
   \<and>
   map_sum id (\<lambda>c. field (workflowState c) ''messages'')
     (receive_all integer_numstr
        [(clock_at ''10:15:00'' 1,
          frame ''progress_update''
            (JObj [(''message'', JObj [(''content'', JStr ''Case classified as CRITICAL'')])])),
         (clock_at ''10:15:01'' 2,
          frame ''session_update'' (JObj [(''status'', JStr ''running''), (''messages'', JArr [])]))]
        (connected ''session-1''))
   = Inr (JArr [])"
  by code_simp


section \<open>Frames that are ignored or dropped\<close>

lemma workflowState_run_cleanup: "workflowState (run_cleanup c) = workflowState c"
  by (simp add: run_cleanup_def cleanup_effect_def)

lemma workflowState_run_effect: "workflowState (run_effect ctor_ok sessionId isVisible c) = workflowState c"
  by (simp add: run_effect_def connection_effect_def connectWebSocket_def)

lemma field_initial_status: "field initial_state ''status'' = JStr ''idle''"
  by (simp add: field_def initial_state_def)

text \<open>
  C6, as the code has it. A parsed frame whose \<^verbatim>\<open>type\<close> is neither
  \<^verbatim>\<open>progress_update\<close> nor \<^verbatim>\<open>session_update\<close> leaves the component as it is: no state
  change, no exception, and no console output. That includes the frame with no
  \<^verbatim>\<open>type\<close> at all, which is dropped without a diagnostic. A payload that does not parse,
  or that parses to \<^verbatim>\<open>null\<close>, is dropped with one \<^verbatim>\<open>console.error\<close> and no state
  change. A transport error leaves the workflow state alone (so a connection that errors
  before any frame still has status \<^verbatim>\<open>idle\<close> and the initial state) and sets the reason
  \<^verbatim>\<open>Connection failed\<close>, which the status line then shows.
\<close>

theorem C6_ignored_and_dropped_frames:
  "(\<not> nullish data \<and> read_prop data ''type'' \<noteq> JStr ''progress_update'' \<and>
      read_prop data ''type'' \<noteq> JStr ''session_update'' \<longrightarrow>
      onmessage numstr clk (Parsed data) c = Inr c) \<and>
   (\<not> nullish data \<and> read_prop data ''type'' = JUndefined \<longrightarrow>
      onmessage numstr clk (Parsed data) c = Inr c) \<and>
   onmessage numstr clk Unparseable c =
     Inr (c\<lparr>effects := effects c @ [ConsoleError ''Error parsing WebSocket message:'']\<rparr>) \<and>
   onmessage numstr clk (Parsed JNull) c =
     Inr (c\<lparr>effects := effects c @ [ConsoleError ''Error parsing WebSocket message:'']\<rparr>) \<and>
   workflowState (onerror c) = workflowState c \<and>
   connectionError (onerror c) = JStr ''Connection failed'' \<and>
   connection_status (onerror c) = JStr ''Connection failed'' \<and>
   field (workflowState (onerror (mount ctor_ok sessionId isVisible))) ''status'' = JStr ''idle'' \<and>
   workflowState (onerror (onopen (mount ctor_ok sessionId isVisible))) = initial_state"
proof -
  have m: "workflowState (mount ctor_ok sessionId isVisible) = initial_state"
    by (simp add: mount_def workflowState_run_effect initial_component_def)
  have e: "workflowState (onerror c) = workflowState c" for c
    by (simp add: onerror_def)
  have o: "workflowState (onopen c) = workflowState c" for c
    by (simp add: onopen_def)
  have s: "connection_status (onerror c) = JStr ''Connection failed''"
    by (simp add: connection_status_def onerror_def or_js_def)
  have n: "onmessage numstr clk (Parsed JNull) c =
     Inr (c\<lparr>effects := effects c @ [ConsoleError ''Error parsing WebSocket message:'']\<rparr>)"
    by (simp add: onmessage_nullish)
  show ?thesis
    using s n by (simp add: onmessage_other e o m field_initial_status)
       (simp add: onmessage_def onerror_def)
qed

text \<open>
  The theorem at work: a \<^verbatim>\<open>heartbeat\<close> frame, though it carries a \<^verbatim>\<open>data.status\<close>,
  changes neither the effects nor the status of a connected component.
\<close>

theorem C6_unknown_type_witness:
  "map_sum id effects
     (onmessage integer_numstr (clock_at ''10:15:00'' 1)
        (Parsed (JObj [(''type'', JStr ''heartbeat''),
                       (''data'', JObj [(''status'', JStr ''completed'')])]))
        (connected ''session-1''))
   = Inr (effects (connected ''session-1'')) \<and>
   map_sum id (\<lambda>c. field (workflowState c) ''status'')
     (onmessage integer_numstr (clock_at ''10:15:00'' 1)
        (Parsed (JObj [(''type'', JStr ''heartbeat''),
                       (''data'', JObj [(''status'', JStr ''completed'')])]))
        (connected ''session-1''))
   = Inr (JStr ''idle'')"
proof -
  let ?d = "JObj [(''type'', JStr ''heartbeat''), (''data'', JObj [(''status'', JStr ''completed'')])]"
  have h: "\<not> nullish ?d \<and> read_prop ?d ''type'' \<noteq> JStr ''progress_update'' \<and>
      read_prop ?d ''type'' \<noteq> JStr ''session_update''"
    by simp
  have i: "field (workflowState (connected ''session-1'')) ''status'' = JStr ''idle''"
    by code_simp
  from C6_ignored_and_dropped_frames
         [of ?d integer_numstr "clock_at ''10:15:00'' 1" "connected ''session-1''"] h i
  show ?thesis by simp
qed

text \<open>
  C6 as stated fails: a payload that parses but has no \<^verbatim>\<open>type\<close> is dropped without any
  diagnostic. After it the console holds only the line logged when the socket opened; no
  \<^verbatim>\<open>console.error\<close> was added.
\<close>

theorem C6_missing_type_not_logged:
  "map_sum id effects
     (onmessage integer_numstr (clock_at ''10:15:00'' 1)
        (Parsed (JObj [(''data'', JObj [(''status'', JStr ''running'')])]))
        (connected ''session-1''))
   = Inr [NewWebSocket (JStr ''session-1''),
          ConsoleLog ''Connected to workflow progress WebSocket'',
          Send (JObj [(''type'', JStr ''get_status'')])]"
  by code_simp


section \<open>The connection and the lifecycle of the view\<close>

text \<open>
  C7, as the code has it. The connection effect does nothing when \<^verbatim>\<open>sessionId\<close> is falsy
  or the view is not visible; otherwise it constructs one socket. When the socket opens
  the component is connected, its reason is reset to \<^verbatim>\<open>null\<close>, and it sends exactly one
  \<^verbatim>\<open>{type: 'get_status'}\<close> frame. On a transport error it is disconnected with the reason
  \<^verbatim>\<open>Connection failed\<close>, which the status line shows. On a close it is disconnected and
  the reason is left as it was: \<^verbatim>\<open>null\<close> when the close follows a successful open, and
  the status line then falls back to \<^verbatim>\<open>Connecting...\<close>. Neither handler constructs a
  socket or touches the socket ref: there is no reconnection.
\<close>

theorem C7_connection_lifecycle:
  "(\<not> truthy sessionId \<or> \<not> isVisible \<longrightarrow>
      connection_effect ctor_ok sessionId isVisible c = (c, False)) \<and>
   (truthy sessionId \<and> isVisible \<longrightarrow>
      effects (fst (connection_effect True sessionId isVisible c)) =
        effects c @ [NewWebSocket sessionId]) \<and>
   effects (onopen c) =
     effects c @ [ConsoleLog ''Connected to workflow progress WebSocket'',
                  Send (JObj [(''type'', JStr ''get_status'')])] \<and>
   isConnected (onopen c) \<and>
   connectionError (onopen c) = JNull \<and>
   websocket (onopen c) = websocket c \<and>
   \<not> isConnected (onerror c) \<and>
   connectionError (onerror c) = JStr ''Connection failed'' \<and>
   connection_status (onerror c) = JStr ''Connection failed'' \<and>
   websocket (onerror c) = websocket c \<and>
   effects (onerror c) = effects c @ [ConsoleError ''WebSocket error:''] \<and>
   \<not> isConnected (onclose c) \<and>
   connectionError (onclose c) = connectionError c \<and>
   websocket (onclose c) = websocket c \<and>
   effects (onclose c) = effects c @ [ConsoleLog ''WebSocket connection closed''] \<and>
   connectionError (onclose (onopen c)) = JNull \<and>
   connection_status (onclose (onopen c)) = JStr ''Connecting...''"
  by (simp add: connection_effect_def connectWebSocket_def onopen_def onerror_def onclose_def
      connection_status_def or_js_def)

text \<open>
  The theorem at work: no session id, or a hidden view, and the effect is a no-op; a
  session id and a visible view, and one socket is constructed.
\<close>

theorem C7_connection_effect_witness:
  "connection_effect True JNull True (connected ''session-1'') = (connected ''session-1'', False) \<and>
   connection_effect True (JStr ''session-2'') False (connected ''session-1'') =
     (connected ''session-1'', False) \<and>
   effects (fst (connection_effect True (JStr ''session-1'') True initial_component)) =
     [NewWebSocket (JStr ''session-1'')]"
  using C7_connection_lifecycle [of JNull True True "connected ''session-1''"]
        C7_connection_lifecycle [of "JStr ''session-2''" False True "connected ''session-1''"]
        C7_connection_lifecycle [of "JStr ''session-1''" True True initial_component]
  by (simp add: initial_component_def)

text \<open>
  C7 as stated fails: when a connection that had opened is closed, no reason is surfaced.
  \<^verbatim>\<open>connectionError\<close> is \<^verbatim>\<open>null\<close> and the status line falls back to
  \<^verbatim>\<open>Connecting...\<close>. That is so on a first connection, and also when an earlier socket
  had failed with \<^verbatim>\<open>Connection failed\<close> before the view was given another session whose
  socket opened and was then closed: the open has cleared the reason and the close sets
  none.
\<close>

theorem C7_close_surfaces_no_reason:
  "connectionError (onclose (connected ''session-1'')) = JNull \<and>
   connection_status (onclose (connected ''session-1'')) = JStr ''Connecting...'' \<and>
   connectionError (onerror (mount True (JStr ''session-1'') True)) =
     JStr ''Connection failed'' \<and>
   connectionError
     (onclose (onopen (set_props True (JStr ''session-2'') True
        (onerror (mount True (JStr ''session-1'') True))))) = JNull \<and>
   connection_status
     (onclose (onopen (set_props True (JStr ''session-2'') True
        (onerror (mount True (JStr ''session-1'') True))))) = JStr ''Connecting...''"
  by code_simp

text \<open>
  C9, as the code has it. A change of \<^verbatim>\<open>sessionId\<close> or \<^verbatim>\<open>isVisible\<close>, and an unmount,
  leave the workflow state as it is; when the effect had run and a socket exists, hiding
  the view or unmounting calls \<^verbatim>\<open>close()\<close> once. The fresh-run defaults are the state of a
  newly mounted component: status \<^verbatim>\<open>idle\<close>, both logs empty, progress 0, and the six
  steps of the catalog all \<^verbatim>\<open>pending\<close>.
\<close>

theorem C9_teardown_closes_and_keeps_state:
  "workflowState (set_props ctor_ok sessionId isVisible c) = workflowState c \<and>
   workflowState (unmount c) = workflowState c \<and>
   (cleanup c \<and> websocket c \<noteq> None \<longrightarrow>
      effects (set_props ctor_ok sessionId False c) = effects c @ [CloseSocket] \<and>
      effects (unmount c) = effects c @ [CloseSocket]) \<and>
   workflowState (mount ctor_ok sessionId isVisible) = initial_state \<and>
   field initial_state ''status'' = JStr ''idle'' \<and>
   field initial_state ''messages'' = JArr [] \<and>
   field initial_state ''agent_activities'' = JArr [] \<and>
   field initial_state ''progress_percentage'' = JNum 0 \<and>
   field initial_state ''workflow_steps'' = JArr initial_steps \<and>
   map (\<lambda>step. (read_prop step ''id'', read_prop step ''status'')) initial_steps =
     [(JStr ''triage'', JStr ''pending''),
      (JStr ''doctor_matching'', JStr ''pending''),
      (JStr ''appointment_coordination'', JStr ''pending''),
      (JStr ''doctor_simulation'', JStr ''pending''),
      (JStr ''calendar_integration'', JStr ''pending''),
      (JStr ''health_recommendations'', JStr ''pending'')]"
proof -
  have "field initial_state ''status'' = JStr ''idle''"
       "field initial_state ''messages'' = JArr []"
       "field initial_state ''agent_activities'' = JArr []"
       "field initial_state ''progress_percentage'' = JNum 0"
       "field initial_state ''workflow_steps'' = JArr initial_steps"
    by (simp_all add: field_def initial_state_def)
  moreover have "map (\<lambda>step. (read_prop step ''id'', read_prop step ''status'')) initial_steps =
     [(JStr ''triage'', JStr ''pending''),
      (JStr ''doctor_matching'', JStr ''pending''),
      (JStr ''appointment_coordination'', JStr ''pending''),
      (JStr ''doctor_simulation'', JStr ''pending''),
      (JStr ''calendar_integration'', JStr ''pending''),
      (JStr ''health_recommendations'', JStr ''pending'')]"
    by (simp add: initial_steps_def workflow_step_def)
  moreover have "workflowState (mount ctor_ok sessionId isVisible) = initial_state"
    by (simp add: mount_def workflowState_run_effect initial_component_def)
  moreover have "cleanup c \<and> websocket c \<noteq> None \<longrightarrow>
      effects (set_props ctor_ok sessionId False c) = effects c @ [CloseSocket] \<and>
      effects (unmount c) = effects c @ [CloseSocket]"
    by (auto simp: set_props_def unmount_def run_effect_def connection_effect_def
        run_cleanup_def cleanup_effect_def)
  ultimately show ?thesis
    by (simp add: set_props_def unmount_def workflowState_run_effect workflowState_run_cleanup)
qed

text \<open>
  The theorem at work: hiding a connected view adds one \<^verbatim>\<open>close()\<close> call to what the
  component has done.
\<close>

theorem C9_hide_closes_socket_witness:
  "effects (set_props True (JStr ''session-1'') False (connected ''session-1'')) =
     [NewWebSocket (JStr ''session-1''),
      ConsoleLog ''Connected to workflow progress WebSocket'',
      Send (JObj [(''type'', JStr ''get_status'')]),
      CloseSocket]"
proof -
  have h: "cleanup (connected ''session-1'') \<and> websocket (connected ''session-1'') \<noteq> None"
    by (simp add: connected_def onopen_def mount_def run_effect_def connection_effect_def
        connectWebSocket_def initial_component_def)
  have e: "effects (connected ''session-1'') =
     [NewWebSocket (JStr ''session-1''),
      ConsoleLog ''Connected to workflow progress WebSocket'',
      Send (JObj [(''type'', JStr ''get_status'')])]"
    by (simp add: connected_def onopen_def mount_def run_effect_def connection_effect_def
        connectWebSocket_def initial_component_def)
  from C9_teardown_closes_and_keeps_state
         [of True "JStr ''session-1''" False "connected ''session-1''"] h e
  show ?thesis by simp
qed

text \<open>
  C9 as stated fails: the store is not discarded. After a frame has set the status to
  \<^verbatim>\<open>running\<close> and logged a message, hiding the view leaves the status \<^verbatim>\<open>running\<close>, and
  showing it again for another session still has that status and that message.
\<close>

theorem C9_state_survives_hide_and_reopen:
  "map_sum id
     (\<lambda>c. (field (workflowState (set_props True (JStr ''session-1'') False c)) ''status'',
           field (workflowState (set_props True (JStr ''session-2'') True
                    (set_props True (JStr ''session-1'') False c))) ''status'',
           field (workflowState (set_props True (JStr ''session-2'') True
                    (set_props True (JStr ''session-1'') False c))) ''messages''))
     (onmessage integer_numstr (clock_at ''10:15:00'' 1)
        (frame ''progress_update''
           (JObj [(''status'', JStr ''running''),
                  (''message'', JObj [(''content'', JStr ''Case classified as CRITICAL'')])]))
        (connected ''session-1''))
   = Inr (JStr ''running'', JStr ''running'',
          JArr [JObj [(''content'', JStr ''Case classified as CRITICAL''),
                      (''timestamp'', JStr ''10:15:00'')]])"
  by code_simp


end
